theory Spec2Isabelle
  imports Complex_Main "HOL-Library.AList"
begin

section \<open>Python values used by the run manager\<close>

text \<open>
  Python \<open>str\<close> values are modelled as \<open>string\<close>: a list of characters with code
  points below 256, whose \<open>length\<close> is Python's \<open>len\<close> on that range.
  \<open>datetime.now(timezone.utc)\<close> reads the clock; every such read enters the model as an
  argument of type \<open>timestamp\<close>, in the order in which the source performs the reads.
\<close>

type_synonym timestamp = nat

text \<open>
  A Python \<open>float\<close>: a finite value, an infinity or NaN. Only comparisons are applied to
  progress values, and comparisons of floats are exact, so the finite values are reals.
\<close>

datatype pyfloat = Finite real | PosInf | NegInf | NaN

fun float_lt :: "pyfloat \<Rightarrow> pyfloat \<Rightarrow> bool" where
  "float_lt NaN _ = False"
| "float_lt _ NaN = False"
| "float_lt (Finite a) (Finite b) = (a < b)"
| "float_lt (Finite a) PosInf = True"
| "float_lt (Finite a) NegInf = False"
| "float_lt PosInf _ = False"
| "float_lt NegInf NegInf = False"
| "float_lt NegInf _ = True"

text \<open>
  The builtins \<open>min(a, b)\<close> and \<open>max(a, b)\<close> keep their first argument unless the second
  is strictly smaller (respectively strictly larger).
\<close>

definition py_min :: "pyfloat \<Rightarrow> pyfloat \<Rightarrow> pyfloat" where
  "py_min a b = (if float_lt b a then b else a)"

definition py_max :: "pyfloat \<Rightarrow> pyfloat \<Rightarrow> pyfloat" where
  "py_max a b = (if float_lt a b then b else a)"

text \<open>A \<open>Dict\<close> in insertion order; the values of metadata and payloads are opaque.\<close>

type_synonym pydict = "(string \<times> string) list"

text \<open>\<open>d.update(other)\<close>: every item of \<open>other\<close> is stored into \<open>d\<close>, in order.\<close>

definition dict_update :: "('k \<times> 'v) list \<Rightarrow> ('k \<times> 'v) list \<Rightarrow> ('k \<times> 'v) list" where
  "dict_update d other = foldl (\<lambda>acc kv. AList.update (fst kv) (snd kv) acc) d other"

section \<open>The run model\<close>

text \<open>
  Modelled from the spec: the enum \<open>RunStatus\<close> of \<open>app/models/run.py\<close>, which is not
  among the sources. The run manager names its members \<open>PENDING\<close>, \<open>COMPLETED\<close> and
  \<open>FAILED\<close>; the members for the running stages (extracting the brand kit, generating,
  critiquing, refining) are kept by their names.
\<close>

datatype RunStatus = PENDING | InProgress string | COMPLETED | FAILED

text \<open>
  Modelled from the spec: the class \<open>RunStage\<close> of \<open>app/models/run.py\<close>: stage name,
  status, start time, completion time (null while running), free-form metadata, error
  text (only if failed). The fields carry the prefix \<open>stage_\<close> where the run has a field
  of the same name.
\<close>

record RunStage =
  stage_name :: string
  stage_status :: RunStatus
  stage_started_at :: timestamp
  stage_completed_at :: "timestamp option"
  stage_metadata :: pydict
  stage_error :: "string option"

text \<open>
  Modelled from the spec: the class \<open>RunModel\<close> of \<open>app/models/run.py\<close>, with the fields
  the run manager and the routes read and write.
\<close>

record RunModel =
  run_id :: string
  prompt :: string
  media_type :: string
  brand_website_url :: "string option"
  status :: RunStatus
  progress :: pyfloat
  current_stage :: "string option"
  error_message :: "string option"
  stages :: "(string \<times> RunStage) list"
  brand_kit_data :: "pydict option"
  generated_ads :: "string list"
  critique_results :: "pydict option"
  final_ad_path :: "string option"
  retry_count :: int
  created_at :: timestamp
  updated_at :: timestamp
  completed_at :: "timestamp option"

text \<open>
  Modelled from the spec: the constructor \<open>RunModel(run_id=, prompt=, media_type=,
  brand_website_url=, status=, progress=)\<close> as \<open>create_run\<close> calls it. The fields it does
  not pass take the defaults of the data model: no current stage, empty stage history, no
  result fields, retry count 0, created and last-updated set at construction, completed
  null.
\<close>

definition RunModel_new ::
  "string \<Rightarrow> string \<Rightarrow> string \<Rightarrow> string option \<Rightarrow> RunStatus \<Rightarrow> pyfloat \<Rightarrow> timestamp \<Rightarrow> RunModel" where
  "RunModel_new rid p mt url st pr now =
     \<lparr> run_id = rid, prompt = p, media_type = mt, brand_website_url = url,
       status = st, progress = pr, current_stage = None, error_message = None,
       stages = [], brand_kit_data = None, generated_ads = [], critique_results = None,
       final_ad_path = None, retry_count = 0, created_at = now, updated_at = now,
       completed_at = None \<rparr>"

section \<open>The run manager\<close>

text \<open>
  \<open>RunManager._runs\<close> is a dict from run id to a \<open>RunModel\<close> object. The objects are
  mutable and shared: \<open>create_run\<close>, \<open>get_run\<close> and \<open>list_runs\<close> hand the objects
  themselves to their callers. The model therefore keeps the objects in a heap and the
  dict holds references: the reference \<open>a\<close> denotes the object \<open>heap m ! a\<close>. Objects are
  allocated at the end of the heap and never freed. The lock serialises the bodies of the
  methods; each method is one step of the model.
\<close>

type_synonym ref = nat

record RunManager =
  runs :: "(string \<times> ref) list"
  heap :: "RunModel list"

definition RunManager_init :: RunManager where
  "RunManager_init = \<lparr> runs = [], heap = [] \<rparr>"

text \<open>Reading an object through a reference, as a caller that holds the object does.\<close>

definition deref :: "RunManager \<Rightarrow> ref \<Rightarrow> RunModel option" where
  "deref m a = (if a < length (heap m) then Some (heap m ! a) else None)"

text \<open>In-place mutation of the object behind a reference.\<close>

definition mutate :: "ref \<Rightarrow> (RunModel \<Rightarrow> RunModel) \<Rightarrow> RunManager \<Rightarrow> RunManager" where
  "mutate a f m = (if a < length (heap m) then m\<lparr>heap := (heap m)[a := f (heap m ! a)]\<rparr> else m)"

text \<open>
  \<open>_generate_run_id\<close> returns \<open>str(uuid.uuid4())\<close>: the random UUID is drawn by the
  environment and enters the model as the argument \<open>uuid\<close>.
\<close>

definition generate_run_id :: "string \<Rightarrow> string" where
  "generate_run_id uuid = uuid"

definition create_run ::
  "RunManager \<Rightarrow> string \<Rightarrow> timestamp \<Rightarrow> string \<Rightarrow> string \<Rightarrow> string option \<Rightarrow> ref \<times> RunManager" where
  "create_run m uuid now p mt url =
     (let rid = generate_run_id uuid;
          run = RunModel_new rid p mt url PENDING (Finite 0) now;
          a = length (heap m)
      in (a, m\<lparr>heap := heap m @ [run], runs := AList.update rid a (runs m)\<rparr>))"

definition get_run :: "RunManager \<Rightarrow> string \<Rightarrow> ref option" where
  "get_run m rid = map_of (runs m) rid"

definition update_status ::
  "RunManager \<Rightarrow> string \<Rightarrow> RunStatus \<Rightarrow> pyfloat option \<Rightarrow> string option \<Rightarrow> string option
     \<Rightarrow> timestamp \<Rightarrow> bool \<times> RunManager" where
  "update_status m rid st pr cs err now =
     (case map_of (runs m) rid of
        None \<Rightarrow> (False, m)
      | Some a \<Rightarrow>
          (True, mutate a (\<lambda>run.
             let run = run\<lparr>status := st\<rparr>;
                 run = run\<lparr>updated_at := now\<rparr>;
                 run = (case pr of None \<Rightarrow> run
                        | Some p \<Rightarrow> run\<lparr>progress := py_max (Finite 0) (py_min (Finite 100) p)\<rparr>);
                 run = (case cs of None \<Rightarrow> run | Some c \<Rightarrow> run\<lparr>current_stage := Some c\<rparr>);
                 run = (case err of None \<Rightarrow> run | Some e \<Rightarrow> run\<lparr>error_message := Some e\<rparr>)
             in run) m))"

text \<open>\<open>metadata or {}\<close>: \<open>None\<close> and the empty dict both give the empty dict.\<close>

definition start_stage ::
  "RunManager \<Rightarrow> string \<Rightarrow> string \<Rightarrow> pydict option \<Rightarrow> timestamp \<Rightarrow> timestamp \<Rightarrow> bool \<times> RunManager" where
  "start_stage m rid name md now1 now2 =
     (case map_of (runs m) rid of
        None \<Rightarrow> (False, m)
      | Some a \<Rightarrow>
          (let stage = \<lparr> stage_name = name, stage_status = PENDING, stage_started_at = now1,
                         stage_completed_at = None,
                         stage_metadata = (case md of None \<Rightarrow> [] | Some d \<Rightarrow> d),
                         stage_error = None \<rparr>
           in (True, mutate a (\<lambda>run.
                 run\<lparr>stages := AList.update name stage (stages run),
                     current_stage := Some name,
                     updated_at := now2\<rparr>) m)))"

text \<open>\<open>if metadata:\<close> holds for a dict that is neither \<open>None\<close> nor empty.\<close>

definition merge_metadata :: "pydict option \<Rightarrow> RunStage \<Rightarrow> RunStage" where
  "merge_metadata md stage =
     (case md of
        None \<Rightarrow> stage
      | Some d \<Rightarrow> if d = [] then stage
                  else stage\<lparr>stage_metadata := dict_update (stage_metadata stage) d\<rparr>)"

definition complete_stage ::
  "RunManager \<Rightarrow> string \<Rightarrow> string \<Rightarrow> pydict option \<Rightarrow> timestamp \<Rightarrow> timestamp \<Rightarrow> bool \<times> RunManager" where
  "complete_stage m rid name md now1 now2 =
     (case map_of (runs m) rid of
        None \<Rightarrow> (False, m)
      | Some a \<Rightarrow>
          (True, mutate a (\<lambda>run.
             let run = (case map_of (stages run) name of
                          None \<Rightarrow> run
                        | Some stage \<Rightarrow>
                            run\<lparr>stages := AList.update name
                              (merge_metadata md
                                 (stage\<lparr>stage_status := COMPLETED, stage_completed_at := Some now1\<rparr>))
                              (stages run)\<rparr>)
             in run\<lparr>updated_at := now2\<rparr>) m))"

definition fail_stage ::
  "RunManager \<Rightarrow> string \<Rightarrow> string \<Rightarrow> string \<Rightarrow> pydict option \<Rightarrow> timestamp \<Rightarrow> timestamp
     \<Rightarrow> bool \<times> RunManager" where
  "fail_stage m rid name err md now1 now2 =
     (case map_of (runs m) rid of
        None \<Rightarrow> (False, m)
      | Some a \<Rightarrow>
          (True, mutate a (\<lambda>run.
             let run = (case map_of (stages run) name of
                          None \<Rightarrow> run
                        | Some stage \<Rightarrow>
                            run\<lparr>stages := AList.update name
                              (merge_metadata md
                                 (stage\<lparr>stage_status := FAILED, stage_completed_at := Some now1,
                                        stage_error := Some err\<rparr>))
                              (stages run)\<rparr>)
             in run\<lparr>status := FAILED, error_message := Some err, updated_at := now2\<rparr>) m))"

definition update_run_data ::
  "RunManager \<Rightarrow> string \<Rightarrow> pydict option \<Rightarrow> string list option \<Rightarrow> pydict option \<Rightarrow> string option
     \<Rightarrow> timestamp \<Rightarrow> bool \<times> RunManager" where
  "update_run_data m rid bk ads cr fp now =
     (case map_of (runs m) rid of
        None \<Rightarrow> (False, m)
      | Some a \<Rightarrow>
          (True, mutate a (\<lambda>run.
             let run = (case bk of None \<Rightarrow> run | Some d \<Rightarrow> run\<lparr>brand_kit_data := Some d\<rparr>);
                 run = (case ads of None \<Rightarrow> run | Some l \<Rightarrow> run\<lparr>generated_ads := l\<rparr>);
                 run = (case cr of None \<Rightarrow> run | Some d \<Rightarrow> run\<lparr>critique_results := Some d\<rparr>);
                 run = (case fp of None \<Rightarrow> run | Some p \<Rightarrow> run\<lparr>final_ad_path := Some p\<rparr>)
             in run\<lparr>updated_at := now\<rparr>) m))"

definition increment_retry :: "RunManager \<Rightarrow> string \<Rightarrow> timestamp \<Rightarrow> bool \<times> RunManager" where
  "increment_retry m rid now =
     (case map_of (runs m) rid of
        None \<Rightarrow> (False, m)
      | Some a \<Rightarrow>
          (True, mutate a (\<lambda>run. run\<lparr>retry_count := retry_count run + 1, updated_at := now\<rparr>) m))"

definition complete_run ::
  "RunManager \<Rightarrow> string \<Rightarrow> bool \<Rightarrow> timestamp \<Rightarrow> timestamp \<Rightarrow> bool \<times> RunManager" where
  "complete_run m rid success now1 now2 =
     (case map_of (runs m) rid of
        None \<Rightarrow> (False, m)
      | Some a \<Rightarrow>
          (True, mutate a (\<lambda>run.
             run\<lparr>status := (if success then COMPLETED else FAILED),
                 progress := Finite 100,
                 completed_at := Some now1,
                 updated_at := now2\<rparr>) m))"

definition delete_run :: "RunManager \<Rightarrow> string \<Rightarrow> bool \<times> RunManager" where
  "delete_run m rid =
     (if map_of (runs m) rid \<noteq> None then (True, m\<lparr>runs := AList.delete rid (runs m)\<rparr>)
      else (False, m))"

text \<open>
  \<open>list_runs\<close> builds a new list of the dict's values, which are the run objects
  themselves, and filters it by the status each object has at the time of the call.
\<close>

definition list_runs :: "RunManager \<Rightarrow> RunStatus option \<Rightarrow> ref list" where
  "list_runs m st =
     (let rs = map snd (runs m)
      in case st of
           None \<Rightarrow> rs
         | Some s \<Rightarrow> filter (\<lambda>a. map_option status (deref m a) = Some s) rs)"

section \<open>Histories of run manager calls\<close>

text \<open>One call of a mutating method of the run manager, with the clock reads it makes.\<close>

datatype op =
    CreateRun string timestamp string string "string option"
  | UpdateStatus string RunStatus "pyfloat option" "string option" "string option" timestamp
  | StartStage string string "pydict option" timestamp timestamp
  | CompleteStage string string "pydict option" timestamp timestamp
  | FailStage string string string "pydict option" timestamp timestamp
  | UpdateRunData string "pydict option" "string list option" "pydict option" "string option" timestamp
  | IncrementRetry string timestamp
  | CompleteRun string bool timestamp timestamp
  | DeleteRun string

fun apply_op :: "RunManager \<Rightarrow> op \<Rightarrow> RunManager" where
  "apply_op m (CreateRun uuid now p mt url) = snd (create_run m uuid now p mt url)"
| "apply_op m (UpdateStatus rid st pr cs err now) = snd (update_status m rid st pr cs err now)"
| "apply_op m (StartStage rid name md now1 now2) = snd (start_stage m rid name md now1 now2)"
| "apply_op m (CompleteStage rid name md now1 now2) = snd (complete_stage m rid name md now1 now2)"
| "apply_op m (FailStage rid name err md now1 now2) = snd (fail_stage m rid name err md now1 now2)"
| "apply_op m (UpdateRunData rid bk ads cr fp now) = snd (update_run_data m rid bk ads cr fp now)"
| "apply_op m (IncrementRetry rid now) = snd (increment_retry m rid now)"
| "apply_op m (CompleteRun rid success now1 now2) = snd (complete_run m rid success now1 now2)"
| "apply_op m (DeleteRun rid) = snd (delete_run m rid)"

definition run_ops :: "RunManager \<Rightarrow> op list \<Rightarrow> RunManager" where
  "run_ops m ops = foldl apply_op m ops"

fun is_CompleteRun :: "op \<Rightarrow> bool" where
  "is_CompleteRun (CompleteRun _ _ _ _) = True"
| "is_CompleteRun _ = False"




section \<open>The decision policy\<close>

text \<open>
  Modelled from the spec: the function \<open>should_continue\<close> of \<open>app/core/orchestrator.py\<close>,
  which is not among the sources (only its test is). The rule table of the decision
  policy, evaluated in order, on the fields \<open>refinement_strategy\<close>, \<open>retry_count\<close> and
  \<open>max_retries\<close> of the workflow state: the retry ceiling gives \<open>end\<close>; else an absent
  strategy gives \<open>end\<close>; else the strategy is passed through unchanged.
\<close>

definition should_continue :: "string option \<Rightarrow> int \<Rightarrow> int \<Rightarrow> string" where
  "should_continue refinement_strategy retry_count' max_retries =
     (if retry_count' \<ge> max_retries then ''end''
      else (case refinement_strategy of None \<Rightarrow> ''end'' | Some strategy \<Rightarrow> strategy))"

section \<open>The routes\<close>

text \<open>
  \<open>str.isspace\<close> on the code points below 256, and \<open>str.strip()\<close>, which removes the
  leading and the trailing whitespace.
\<close>

definition isspace :: "char \<Rightarrow> bool" where
  "isspace c =
     (let n = (of_char c :: nat)
      in (9 \<le> n \<and> n \<le> 13) \<or> (28 \<le> n \<and> n \<le> 32) \<or> n = 133 \<or> n = 160)"

definition strip :: "string \<Rightarrow> string" where
  "strip s = rev (dropWhile isspace (rev (dropWhile isspace s)))"

text \<open>
  Modelled from the spec: the enum \<open>MediaType\<close> of \<open>app/models/request.py\<close>, which is not
  among the sources: the media kind is \<open>image\<close> or \<open>video\<close>. A form field converts to
  the member that has its value.
\<close>

datatype MediaType = IMAGE | VIDEO

fun MediaType_value :: "MediaType \<Rightarrow> string" where
  "MediaType_value IMAGE = ''image''"
| "MediaType_value VIDEO = ''video''"

definition MediaType_of :: "string \<Rightarrow> MediaType option" where
  "MediaType_of s =
     (if s = ''image'' then Some IMAGE else if s = ''video'' then Some VIDEO else None)"

text \<open>The exceptions of \<open>app/core/exceptions.py\<close> that the route raises, with their message.\<close>

datatype BrandAIException = ValidationError string | FileUploadError string

fun message :: "BrandAIException \<Rightarrow> string" where
  "message (ValidationError msg) = msg"
| "message (FileUploadError msg) = ''File upload error: '' @ msg"

text \<open>
  What the client receives instead of a response: the framework's rejection of a form that
  violates the declared constraints (status 422), or an \<open>HTTPException\<close> with its status
  code and detail.
\<close>

datatype api_error = RequestValidationError | HTTPException nat string

text \<open>
  Modelled from the spec: the class \<open>GenerationResponse\<close> of \<open>app/models/response.py\<close>,
  with the fields the route passes.
\<close>

record GenerationResponse =
  response_run_id :: string
  response_status :: RunStatus
  response_message :: string
  estimated_time :: nat

text \<open>The text \<open>media_type must be 'image' or 'video'\<close>, whose last character is a quote.\<close>

definition media_type_message :: string where
  "media_type_message = ''media_type must be 'image' or 'video'' @ [CHR 0x27]"

text \<open>
  The body of \<open>generate_ad\<close> up to its \<open>except\<close> clauses. The block that checks and
  saves the two uploaded files runs after the validation and before the run is created;
  it raises nothing but \<open>FileUploadError\<close>, and it enters the model by its outcome
  \<open>uploads\<close>: the text given to \<open>FileUploadError\<close>, or the two optional paths. Adding
  the background task does not change the run manager.
\<close>

definition generate_ad_body ::
  "RunManager \<Rightarrow> string \<Rightarrow> MediaType \<Rightarrow> string option \<Rightarrow> string + (string option \<times> string option)
     \<Rightarrow> string \<Rightarrow> timestamp \<Rightarrow> (BrandAIException + GenerationResponse) \<times> RunManager" where
  "generate_ad_body m p mt url uploads uuid now =
     (if p = [] \<or> length (strip p) < 10
      then (Inl (ValidationError ''Prompt must be at least 10 characters long''), m)
      else
        let media_type_str = MediaType_value mt
        in if media_type_str \<notin> set [''image'', ''video'']
           then (Inl (ValidationError media_type_message), m)
           else
             (case uploads of
                Inl msg \<Rightarrow> (Inl (FileUploadError msg), m)
              | Inr paths \<Rightarrow>
                  let (run, m') = create_run m uuid now p media_type_str url;
                      rid = (case deref m' run of None \<Rightarrow> [] | Some r \<Rightarrow> run_id r);
                      estimated = (if media_type_str = ''image'' then 120 else 300)
                  in (Inr \<lparr> response_run_id = rid, response_status = PENDING,
                            response_message =
                              ''Ad generation started. Use the run_id to check status.'',
                            estimated_time = estimated \<rparr>, m')))"

text \<open>The \<open>except\<close> clauses of \<open>generate_ad\<close>: both exceptions become status 400.\<close>

definition generate_ad ::
  "RunManager \<Rightarrow> string \<Rightarrow> MediaType \<Rightarrow> string option \<Rightarrow> string + (string option \<times> string option)
     \<Rightarrow> string \<Rightarrow> timestamp \<Rightarrow> (api_error + GenerationResponse) \<times> RunManager" where
  "generate_ad m p mt url uploads uuid now =
     (case generate_ad_body m p mt url uploads uuid now of
        (Inl e, m') \<Rightarrow> (Inl (HTTPException 400 (message e)), m')
      | (Inr response, m') \<Rightarrow> (Inr response, m'))"

text \<open>
  The endpoint \<open>POST /generate\<close>: the framework first checks the form against the
  declaration of the parameters (\<open>prompt\<close> with \<open>min_length=10, max_length=1000\<close>,
  \<open>media_type\<close> a \<open>MediaType\<close>) and calls \<open>generate_ad\<close> only when it holds.
\<close>

definition post_generate ::
  "RunManager \<Rightarrow> string \<Rightarrow> string \<Rightarrow> string option \<Rightarrow> string + (string option \<times> string option)
     \<Rightarrow> string \<Rightarrow> timestamp \<Rightarrow> (api_error + GenerationResponse) \<times> RunManager" where
  "post_generate m p media url uploads uuid now =
     (if length p < 10 \<or> 1000 < length p then (Inl RequestValidationError, m)
      else
        (case MediaType_of media of
           None \<Rightarrow> (Inl RequestValidationError, m)
         | Some mt \<Rightarrow> generate_ad m p mt url uploads uuid now))"

text \<open>A rejection for invalid input: by the framework, or by the two checks of the route.\<close>

fun validation_failure :: "api_error + GenerationResponse \<Rightarrow> bool" where
  "validation_failure (Inl RequestValidationError) = True"
| "validation_failure (Inl (HTTPException code detail)) =
     (code = 400 \<and>
      (detail = ''Prompt must be at least 10 characters long''
       \<or> detail = media_type_message))"
| "validation_failure (Inr response) = False"

text \<open>
  \<open>execute_workflow\<close> awaits \<open>orchestrator.execute\<close>, which is not among the sources; the
  model takes the run manager as the orchestrator left it and the exception it raised, if
  any, as \<open>str(e)\<close>. The handler calls \<open>run_manager.fail_run\<close>. The class \<open>RunManager\<close>
  defines \<open>create_run\<close>, \<open>get_run\<close>, \<open>update_status\<close>, \<open>start_stage\<close>, \<open>complete_stage\<close>,
  \<open>fail_stage\<close>, \<open>update_run_data\<close>, \<open>increment_retry\<close>, \<open>complete_run\<close>, \<open>delete_run\<close>,
  \<open>list_runs\<close> and \<open>_generate_run_id\<close>, and no attribute \<open>fail_run\<close>: looking it up
  finds nothing, and the call raises \<open>AttributeError\<close> inside the handler.
\<close>

definition RunManager_fail_run :: "(RunManager \<Rightarrow> string \<Rightarrow> string \<Rightarrow> RunManager) option" where
  "RunManager_fail_run = None"

datatype task_result = Finished | Escaped string

definition execute_workflow :: "RunManager \<Rightarrow> string \<Rightarrow> string option \<Rightarrow> task_result \<times> RunManager" where
  "execute_workflow m rid raised =
     (case raised of
        None \<Rightarrow> (Finished, m)
      | Some e \<Rightarrow>
          (case RunManager_fail_run of
             None \<Rightarrow> (Escaped ''AttributeError'', m)
           | Some fail_run \<Rightarrow> (Finished, fail_run m rid e)))"

section \<open>Concrete histories\<close>

definition sample_id :: string where
  "sample_id = ''123e4567-e89b-42d3-a456-426614174000''"

definition sample_prompt :: string where
  "sample_prompt = ''An advert for running shoes''"

definition one_run :: RunManager where
  "one_run = snd (create_run RunManager_init sample_id 1 sample_prompt ''image'' None)"

definition fail_stage_history :: "op list" where
  "fail_stage_history =
     [CreateRun sample_id 1 sample_prompt ''image'' None,
      FailStage sample_id ''generation'' ''backend unavailable'' None 2 3]"

definition reopened_history :: "op list" where
  "reopened_history =
     [CreateRun sample_id 1 sample_prompt ''image'' None,
      CompleteRun sample_id True 2 3,
      UpdateStatus sample_id (InProgress ''generating'') None None None 4]"



section \<open>Auxiliary facts\<close>

lemmas op_defs = create_run_def update_status_def start_stage_def complete_stage_def
  fail_stage_def update_run_data_def increment_retry_def complete_run_def delete_run_def

lemma runs_mutate: "runs (mutate a f m) = runs m"
  by (simp add: mutate_def)

lemma deref_mutate:
  "deref (mutate a f m) b = (if b = a then map_option f (deref m a) else deref m b)"
  by (simp add: mutate_def deref_def)

lemma deref_create_run:
  "deref m b = Some r \<Longrightarrow> deref (snd (create_run m uuid now p mt url)) b = Some r"
  by (auto simp: create_run_def Let_def deref_def nth_append split: if_splits)

lemma deref_delete_run: "deref (snd (delete_run m rid)) b = deref m b"
  by (simp add: delete_run_def deref_def)

lemma clamp_cases:
  "py_max (Finite 0) (py_min (Finite 100) p) =
     (case p of Finite x \<Rightarrow> Finite (max 0 (min 100 x)) | PosInf \<Rightarrow> Finite 100
      | NegInf \<Rightarrow> Finite 0 | NaN \<Rightarrow> Finite 100)"
  by (cases p) (auto simp: py_max_def py_min_def max_def min_def)

text \<open>Every method but \<open>complete_run\<close> leaves the completed timestamp of every object.\<close>

lemma completed_at_frame:
  assumes "deref m a = Some run" and "\<not> is_CompleteRun op"
  shows "map_option completed_at (deref (apply_op m op) a) = Some (completed_at run)"
proof (cases op)
  case (CreateRun uuid now p mt url)
  then show ?thesis using assms(1) by (simp add: deref_create_run)
next
  case (DeleteRun rid)
  then show ?thesis using assms(1) by (simp add: deref_delete_run)
next
  case (CompleteRun rid success now1 now2)
  then show ?thesis using assms(2) by simp
next
  case (UpdateStatus rid st pr cs err now)
  then show ?thesis using assms(1)
    by (auto simp: update_status_def deref_mutate Let_def split: option.splits)
next
  case (StartStage rid name md now1 now2)
  then show ?thesis using assms(1)
    by (auto simp: start_stage_def deref_mutate Let_def split: option.splits)
next
  case (CompleteStage rid name md now1 now2)
  then show ?thesis using assms(1)
    by (auto simp: complete_stage_def deref_mutate Let_def split: option.splits)
next
  case (FailStage rid name err md now1 now2)
  then show ?thesis using assms(1)
    by (auto simp: fail_stage_def deref_mutate Let_def split: option.splits)
next
  case (UpdateRunData rid bk ads cr fp now)
  then show ?thesis using assms(1)
    by (auto simp: update_run_data_def deref_mutate Let_def split: option.splits)
next
  case (IncrementRetry rid now)
  then show ?thesis using assms(1)
    by (auto simp: increment_retry_def deref_mutate split: option.splits)
qed

lemma one_run_eq:
  "one_run = \<lparr> runs = [(sample_id, 0)],
               heap = [RunModel_new sample_id sample_prompt ''image'' None PENDING (Finite 0) 1] \<rparr>"
  by (simp add: one_run_def RunManager_init_def create_run_def generate_run_id_def Let_def)

lemma get_run_one_run: "get_run one_run sample_id = Some 0"
  by (simp add: one_run_eq get_run_def)

lemma deref_one_run:
  "deref one_run 0 = Some (RunModel_new sample_id sample_prompt ''image'' None PENDING (Finite 0) 1)"
  by (simp add: one_run_eq deref_def)

lemma length_strip_le: "length (strip s) \<le> length s"
proof -
  have "length (strip s) \<le> length (dropWhile isspace s)"
    using length_dropWhile_le[of isspace "rev (dropWhile isspace s)"]
    by (simp add: strip_def)
  also have "\<dots> \<le> length s"
    by (rule length_dropWhile_le)
  finally show ?thesis .
qed

lemma MediaType_of_None: "(MediaType_of media = None) = (media \<notin> {''image'', ''video''})"
  by (simp add: MediaType_of_def)

lemma MediaType_value_ok: "MediaType_value mt \<in> set [''image'', ''video'']"
  by (cases mt) simp_all

lemma generate_ad_validation:
  "validation_failure (fst (generate_ad m p mt url uploads uuid now)) = (length (strip p) < 10)"
proof (cases "p = [] \<or> length (strip p) < 10")
  case True
  then have short: "length (strip p) < 10"
    by (auto simp: strip_def)
  from True show ?thesis
    by (simp add: generate_ad_def generate_ad_body_def short)
next
  case False
  then have ok: "\<not> length (strip p) < 10" "p \<noteq> []" by auto
  show ?thesis
  proof (cases uploads)
    case (Inl msg)
    then show ?thesis
      using ok MediaType_value_ok[of mt]
      by (simp add: generate_ad_def generate_ad_body_def Let_def media_type_message_def)
  next
    case (Inr paths)
    then show ?thesis
      using ok MediaType_value_ok[of mt]
      by (simp add: generate_ad_def generate_ad_body_def Let_def split: prod.splits)
  qed
qed

lemma generate_ad_rejected_unchanged:
  "validation_failure (fst (generate_ad m p mt url uploads uuid now))
   \<Longrightarrow> snd (generate_ad m p mt url uploads uuid now) = m"
  unfolding generate_ad_validation
  by (simp add: generate_ad_def generate_ad_body_def)

lemma generate_ad_accepted:
  assumes "\<not> length (strip p) < 10"
  shows "generate_ad m p mt url (Inr paths) uuid now
     = (Inr \<lparr> response_run_id = uuid, response_status = PENDING,
               response_message = ''Ad generation started. Use the run_id to check status.'',
               estimated_time = (if mt = IMAGE then 120 else 300) \<rparr>,
        snd (create_run m uuid now p (MediaType_value mt) url))"
proof -
  from assms have "p \<noteq> []" by (auto simp: strip_def)
  with assms show ?thesis
    using MediaType_value_ok[of mt]
    by (cases mt)
       (simp_all add: generate_ad_def generate_ad_body_def Let_def create_run_def
          generate_run_id_def deref_def RunModel_new_def)
qed














text \<open>Every key of the dict is the identifier of a run the store created.\<close>

lemma keys_mutate: "fst ` set (runs (mutate a f m)) = fst ` set (runs m)"
  by (simp add: runs_mutate)




section \<open>Properties of the run manager and the routes\<close>

subsection \<open>The decision policy\<close>

text \<open>
  Claim C1. The decision policy depends on the strategy, the retry count and the retry
  ceiling only: at or above the ceiling it returns \<open>end\<close> whatever the strategy; below
  the ceiling an absent strategy gives \<open>end\<close> and a present one is returned unchanged.
  The six rows of the decision table follow.
\<close>

theorem should_continue_policy:
  "(max_retries \<le> n \<longrightarrow> should_continue strategy n max_retries = ''end'')
   \<and> (n < max_retries \<longrightarrow> should_continue None n max_retries = ''end'')
   \<and> (n < max_retries \<longrightarrow> should_continue (Some s) n max_retries = s)
   \<and> should_continue (Some ''approve'') 0 3 = ''approve''
   \<and> should_continue (Some ''reject'') 0 3 = ''reject''
   \<and> should_continue (Some ''regenerate'') 0 3 = ''regenerate''
   \<and> should_continue (Some ''regenerate'') 3 3 = ''end''
   \<and> should_continue (Some ''enhance'') 0 3 = ''enhance''
   \<and> should_continue None 0 3 = ''end''"
  by (simp add: should_continue_def)

text \<open>The three rules of C1 at inputs outside the table.\<close>

theorem should_continue_policy_witness:
  "should_continue (Some ''approve'') 5 5 = ''end''
   \<and> should_continue None 1 3 = ''end''
   \<and> should_continue (Some ''enhance'') 2 3 = ''enhance''"
  using should_continue_policy[of 5 5 "Some ''approve''" "''x''"]
    should_continue_policy[of 3 1 None "''x''"]
    should_continue_policy[of 3 2 None "''enhance''"]
  by simp

subsection \<open>Faults of the background execution\<close>

text \<open>
  Claim C2 asks that a fault of the background execution is recorded as a failed run. The
  handler of \<open>execute_workflow\<close> calls a method the run manager does not have: whatever
  the run and the fault, \<open>AttributeError\<close> leaves the task and the run manager is as the
  orchestrator left it. A run that was pending stays pending, with no error message.
\<close>

theorem execute_workflow_fault_escapes:
  "execute_workflow m rid (Some e) = (Escaped ''AttributeError'', m)
   \<and> map_option status (deref (snd (execute_workflow one_run sample_id (Some ''boom''))) 0)
       = Some PENDING
   \<and> map_option error_message (deref (snd (execute_workflow one_run sample_id (Some ''boom''))) 0)
       = Some None"
  by (simp add: execute_workflow_def RunManager_fail_run_def deref_one_run RunModel_new_def)

subsection \<open>Terminal status and completed timestamp\<close>

text \<open>
  Claim C3 as stated fails in both directions: after \<open>create_run\<close> and \<open>fail_stage\<close>
  the run is failed and its completed timestamp is unset; after \<open>create_run\<close>,
  \<open>complete_run\<close> and an \<open>update_status\<close> the completed timestamp is set and the status is
  not terminal.
\<close>

theorem terminal_iff_completed_counterexample:
  "map_option status (deref (run_ops RunManager_init fail_stage_history) 0) = Some FAILED
   \<and> map_option completed_at (deref (run_ops RunManager_init fail_stage_history) 0) = Some None
   \<and> map_option status (deref (run_ops RunManager_init reopened_history) 0)
       = Some (InProgress ''generating'')
   \<and> map_option completed_at (deref (run_ops RunManager_init reopened_history) 0) = Some (Some 2)"
  by (simp add: fail_stage_history_def reopened_history_def run_ops_def RunManager_init_def op_defs
      Let_def generate_run_id_def RunModel_new_def mutate_def deref_def sample_id_def)

text \<open>
  Claim C3, amended. For every existing run, \<open>complete_run\<close> sets the status to completed
  (on success) or failed (otherwise), sets the completed timestamp and sets progress to
  100; no other method of the run manager changes the completed timestamp of a run; and
  \<open>fail_stage\<close> makes the run failed with the error message, leaving its progress and
  its completed timestamp as they were.
\<close>

theorem completed_timestamp_set_by_complete_run:
  assumes "get_run m rid = Some a" and "deref m a = Some run"
  shows "deref (snd (complete_run m rid success now1 now2)) a
           = Some (run\<lparr>status := (if success then COMPLETED else FAILED), progress := Finite 100,
                       completed_at := Some now1, updated_at := now2\<rparr>)
     \<and> (\<forall>op. \<not> is_CompleteRun op \<longrightarrow>
           map_option completed_at (deref (apply_op m op) a) = Some (completed_at run))
     \<and> map_option status (deref (snd (fail_stage m rid name err md t1 t2)) a) = Some FAILED
     \<and> map_option error_message (deref (snd (fail_stage m rid name err md t1 t2)) a) = Some (Some err)
     \<and> map_option progress (deref (snd (fail_stage m rid name err md t1 t2)) a) = Some (progress run)
     \<and> map_option completed_at (deref (snd (fail_stage m rid name err md t1 t2)) a)
         = Some (completed_at run)"
proof -
  have cr: "deref (snd (complete_run m rid success now1 now2)) a
           = Some (run\<lparr>status := (if success then COMPLETED else FAILED), progress := Finite 100,
                       completed_at := Some now1, updated_at := now2\<rparr>)"
    using assms by (simp add: complete_run_def get_run_def deref_mutate)
  have fr: "\<forall>op. \<not> is_CompleteRun op \<longrightarrow>
           map_option completed_at (deref (apply_op m op) a) = Some (completed_at run)"
    using assms(2) by (simp add: completed_at_frame)
  have fs: "\<exists>run'. deref (snd (fail_stage m rid name err md t1 t2)) a = Some run'
      \<and> status run' = FAILED \<and> error_message run' = Some err \<and> progress run' = progress run
      \<and> completed_at run' = completed_at run"
    using assms
    by (auto simp: fail_stage_def get_run_def deref_mutate Let_def split: option.splits)
  from cr fr fs show ?thesis by auto
qed

text \<open>The amended C3 on the store with one pending run.\<close>

theorem completed_timestamp_set_by_complete_run_witness:
  "map_option status (deref (snd (complete_run one_run sample_id False 7 8)) 0) = Some FAILED
   \<and> map_option completed_at (deref (snd (complete_run one_run sample_id False 7 8)) 0) = Some (Some 7)
   \<and> map_option progress (deref (snd (complete_run one_run sample_id False 7 8)) 0) = Some (Finite 100)
   \<and> map_option completed_at (deref (apply_op one_run (IncrementRetry sample_id 9)) 0) = Some None
   \<and> map_option progress (deref (snd (fail_stage one_run sample_id ''critique'' ''boom'' None 7 8)) 0)
       = Some (Finite 0)"
proof -
  note t = completed_timestamp_set_by_complete_run[OF get_run_one_run deref_one_run,
      of False 7 8 "''critique''" "''boom''" None 7 8]
  have "\<not> is_CompleteRun (IncrementRetry sample_id 9)" by simp
  with t have "map_option completed_at (deref (apply_op one_run (IncrementRetry sample_id 9)) 0)
      = Some (completed_at (RunModel_new sample_id sample_prompt ''image'' None PENDING (Finite 0) 1))"
    by blast
  with t show ?thesis by (simp add: RunModel_new_def)
qed

subsection \<open>Updating the status\<close>

text \<open>
  Claim C4. For every existing run, \<open>update_status\<close> returns \<open>True\<close> and sets the given
  status; a supplied progress is stored clamped into the interval from 0 to 100; progress,
  current stage and error message stay as they were when not supplied; besides the
  last-updated timestamp no other field of the run changes (the record equation leaves
  retry count, stage history, result fields and the created timestamp alone), and no other
  run and no entry of the dict changes.
\<close>

theorem update_status_effect:
  assumes "get_run m rid = Some a" and "deref m a = Some run"
  shows "\<exists>m'. update_status m rid st pr cs err now = (True, m')
     \<and> runs m' = runs m
     \<and> (\<forall>b. b \<noteq> a \<longrightarrow> deref m' b = deref m b)
     \<and> deref m' a = Some (run\<lparr>
          status := st,
          updated_at := now,
          progress := (case pr of None \<Rightarrow> progress run
                       | Some p \<Rightarrow> py_max (Finite 0) (py_min (Finite 100) p)),
          current_stage := (case cs of None \<Rightarrow> current_stage run | Some c \<Rightarrow> Some c),
          error_message := (case err of None \<Rightarrow> error_message run | Some e \<Rightarrow> Some e)\<rparr>)
     \<and> (\<forall>p. pr = Some p \<longrightarrow>
           (\<exists>r. map_option progress (deref m' a) = Some (Finite r) \<and> 0 \<le> r \<and> r \<le> 100
               \<and> (\<forall>x. p = Finite x \<longrightarrow> r = max 0 (min 100 x))))"
proof -
  obtain m' where m': "m' = snd (update_status m rid st pr cs err now)" by simp
  have ret: "update_status m rid st pr cs err now = (True, m')"
    using assms(1) by (simp add: m' update_status_def get_run_def)
  have rs: "runs m' = runs m"
    using assms(1) by (simp add: m' update_status_def get_run_def runs_mutate)
  have others: "\<forall>b. b \<noteq> a \<longrightarrow> deref m' b = deref m b"
    using assms(1) by (simp add: m' update_status_def get_run_def deref_mutate)
  have this_run: "deref m' a = Some (run\<lparr>
          status := st,
          updated_at := now,
          progress := (case pr of None \<Rightarrow> progress run
                       | Some p \<Rightarrow> py_max (Finite 0) (py_min (Finite 100) p)),
          current_stage := (case cs of None \<Rightarrow> current_stage run | Some c \<Rightarrow> Some c),
          error_message := (case err of None \<Rightarrow> error_message run | Some e \<Rightarrow> Some e)\<rparr>)"
    using assms
    by (auto simp: m' update_status_def get_run_def deref_mutate Let_def split: option.splits)
  have clamped: "\<forall>p. pr = Some p \<longrightarrow>
           (\<exists>r. map_option progress (deref m' a) = Some (Finite r) \<and> 0 \<le> r \<and> r \<le> 100
               \<and> (\<forall>x. p = Finite x \<longrightarrow> r = max 0 (min 100 x)))"
  proof (intro allI impI)
    fix p assume "pr = Some p"
    then have "map_option progress (deref m' a) = Some (py_max (Finite 0) (py_min (Finite 100) p))"
      by (simp add: this_run)
    then show "\<exists>r. map_option progress (deref m' a) = Some (Finite r) \<and> 0 \<le> r \<and> r \<le> 100
               \<and> (\<forall>x. p = Finite x \<longrightarrow> r = max 0 (min 100 x))"
      by (cases p) (auto simp: clamp_cases)
  qed
  from ret rs others this_run clamped show ?thesis by blast
qed

text \<open>C4 on the store with one pending run: a progress of 250 is stored as 100.\<close>

theorem update_status_effect_witness:
  "fst (update_status one_run sample_id (InProgress ''generating'') (Some (Finite 250)) None None 5)
   \<and> map_option progress
        (deref (snd (update_status one_run sample_id (InProgress ''generating'')
                       (Some (Finite 250)) None None 5)) 0) = Some (Finite 100)
   \<and> map_option retry_count
        (deref (snd (update_status one_run sample_id (InProgress ''generating'')
                       (Some (Finite 250)) None None 5)) 0) = Some 0
   \<and> map_option current_stage
        (deref (snd (update_status one_run sample_id (InProgress ''generating'')
                       (Some (Finite 250)) None None 5)) 0) = Some None"
  using update_status_effect[OF get_run_one_run deref_one_run,
      of "InProgress ''generating''" "Some (Finite 250)" None None 5]
  by (auto simp: RunModel_new_def clamp_cases)

subsection \<open>Failing a stage\<close>

text \<open>
  Claim C5. For every existing run, \<open>fail_stage\<close> returns \<open>True\<close>, sets the status of the
  run to failed and its error message to the given one, and leaves progress, retry count
  and the result fields (brand kit, generated ads, critique results, final ad path) as
  they were.
\<close>

theorem fail_stage_effect:
  assumes "get_run m rid = Some a" and "deref m a = Some run"
  shows "\<exists>m' run'. fail_stage m rid name err md now1 now2 = (True, m')
     \<and> deref m' a = Some run'
     \<and> status run' = FAILED
     \<and> error_message run' = Some err
     \<and> progress run' = progress run
     \<and> retry_count run' = retry_count run
     \<and> brand_kit_data run' = brand_kit_data run
     \<and> generated_ads run' = generated_ads run
     \<and> critique_results run' = critique_results run
     \<and> final_ad_path run' = final_ad_path run
     \<and> completed_at run' = completed_at run
     \<and> created_at run' = created_at run
     \<and> runs m' = runs m
     \<and> (\<forall>b. b \<noteq> a \<longrightarrow> deref m' b = deref m b)"
  using assms
  by (auto simp: fail_stage_def get_run_def deref_mutate runs_mutate Let_def split: option.splits)

text \<open>C5 on the store with one pending run.\<close>

theorem fail_stage_effect_witness:
  "fst (fail_stage one_run sample_id ''generation'' ''backend unavailable'' None 5 6)
   \<and> map_option status
        (deref (snd (fail_stage one_run sample_id ''generation'' ''backend unavailable'' None 5 6)) 0)
       = Some FAILED
   \<and> map_option progress
        (deref (snd (fail_stage one_run sample_id ''generation'' ''backend unavailable'' None 5 6)) 0)
       = Some (Finite 0)"
  using fail_stage_effect[OF get_run_one_run deref_one_run,
      of "''generation''" "''backend unavailable''" None 5 6]
  by (auto simp: RunModel_new_def)

subsection \<open>What readers receive\<close>

text \<open>
  Claim C6 as stated fails: the reference a reader obtained from \<open>get_run\<close> (the same one
  \<open>list_runs\<close> returns) reads a pending run before and a failed run after a later
  \<open>update_status\<close> of the store.
\<close>

theorem readers_hold_snapshots_counterexample:
  "get_run one_run sample_id = Some 0
   \<and> list_runs one_run None = [0]
   \<and> map_option status (deref one_run 0) = Some PENDING
   \<and> map_option status
        (deref (snd (update_status one_run sample_id FAILED None None (Some ''boom'') 2)) 0)
       = Some FAILED"
  by (simp add: one_run_eq get_run_def list_runs_def deref_def update_status_def mutate_def
      RunModel_new_def Let_def)

text \<open>
  Claim C6, amended. \<open>get_run\<close> returns the store's own run object or nothing, and
  \<open>list_runs\<close> returns a new list of the store's own run objects, filtered by the status
  each has at the time of the call; a later mutation of a run by the store is visible
  through the reference a reader already holds, while the list itself is not changed by it.
\<close>

theorem readers_hold_store_objects:
  assumes "get_run m rid = Some a" and "deref m a = Some run"
  shows "a \<in> set (list_runs m None)
     \<and> (a \<in> set (list_runs m (Some s))) = (status run = s)
     \<and> set (list_runs m (Some s)) \<subseteq> set (list_runs m None)
     \<and> list_runs m None = map snd (runs m)
     \<and> deref (snd (update_status m rid st None None None now)) a
         = Some (run\<lparr>status := st, updated_at := now\<rparr>)
     \<and> get_run (snd (update_status m rid st None None None now)) rid = Some a
     \<and> list_runs (snd (update_status m rid st None None None now)) None = list_runs m None"
proof -
  from assms(1) have mem: "a \<in> snd ` set (runs m)"
    unfolding get_run_def by (metis map_of_SomeD image_eqI snd_conv)
  then have l1: "a \<in> set (list_runs m None)"
    by (simp add: list_runs_def)
  have l2: "(a \<in> set (list_runs m (Some s))) = (status run = s)"
    using mem assms(2) by (auto simp: list_runs_def)
  have l3: "set (list_runs m (Some s)) \<subseteq> set (list_runs m None)"
    by (auto simp: list_runs_def)
  have l4: "list_runs m None = map snd (runs m)"
    by (simp add: list_runs_def)
  have u1: "deref (snd (update_status m rid st None None None now)) a
         = Some (run\<lparr>status := st, updated_at := now\<rparr>)"
    using assms by (simp add: update_status_def get_run_def deref_mutate)
  have u2: "get_run (snd (update_status m rid st None None None now)) rid = Some a"
    using assms(1) by (simp add: update_status_def get_run_def runs_mutate)
  have u3: "list_runs (snd (update_status m rid st None None None now)) None = list_runs m None"
    using assms(1) by (simp add: update_status_def get_run_def runs_mutate list_runs_def)
  from l1 l2 l3 l4 u1 u2 u3 show ?thesis by blast
qed

text \<open>The amended C6 on the store with one pending run.\<close>

theorem readers_hold_store_objects_witness:
  "0 \<in> set (list_runs one_run None)
   \<and> 0 \<in> set (list_runs one_run (Some PENDING))
   \<and> map_option status (deref (snd (update_status one_run sample_id COMPLETED None None None 4)) 0)
       = Some COMPLETED"
proof -
  note t = readers_hold_store_objects[OF get_run_one_run deref_one_run, of PENDING COMPLETED 4]
  note a = t[THEN conjunct1]
  note b = t[THEN conjunct2, THEN conjunct1]
  note c = t[THEN conjunct2, THEN conjunct2, THEN conjunct2, THEN conjunct2, THEN conjunct1]
  from a b c show ?thesis by (simp add: RunModel_new_def)
qed

subsection \<open>Creating a run\<close>



subsection \<open>Validation of a generation request\<close>

text \<open>
  Claim C8 as stated fails: a prompt of ten characters of which seven are trailing blanks,
  and a prompt of 1001 characters, both with a valid media kind, are rejected.
\<close>

theorem validation_counterexample:
  "length ''abc       '' = 10
   \<and> generate_ad RunManager_init ''abc       '' IMAGE None (Inr (None, None)) sample_id 1
       = (Inl (HTTPException 400 ''Prompt must be at least 10 characters long''), RunManager_init)
   \<and> post_generate RunManager_init ''abc       '' ''image'' None (Inr (None, None)) sample_id 1
       = (Inl (HTTPException 400 ''Prompt must be at least 10 characters long''), RunManager_init)
   \<and> length (replicate 1001 CHR ''a'') = 1001
   \<and> post_generate RunManager_init (replicate 1001 CHR ''a'') ''video'' None (Inr (None, None))
        sample_id 1
       = (Inl RequestValidationError, RunManager_init)"
  by (simp add: post_generate_def generate_ad_def generate_ad_body_def MediaType_of_def
      strip_def isspace_def)

text \<open>
  Claim C8, amended. The endpoint rejects with a validation failure, before any run is
  created, exactly the requests whose prompt has fewer than 10 characters once leading and
  trailing whitespace is removed, or more than 1000 characters, or whose media kind is
  neither \<open>image\<close> nor \<open>video\<close>; every other request passes validation.
\<close>

theorem post_generate_validation:
  "validation_failure (fst (post_generate m p media url uploads uuid now))
     = (length (strip p) < 10 \<or> 1000 < length p \<or> media \<notin> {''image'', ''video''})
   \<and> (validation_failure (fst (post_generate m p media url uploads uuid now))
        \<longrightarrow> snd (post_generate m p media url uploads uuid now) = m)
   \<and> (\<not> validation_failure (fst (post_generate m p media url uploads uuid now))
        \<longrightarrow> (\<forall>paths. uploads = Inr paths \<longrightarrow>
               (\<exists>response a. post_generate m p media url uploads uuid now
                    = (Inr response, snd (create_run m uuid now p media url))
                  \<and> response_run_id response = uuid
                  \<and> get_run (snd (create_run m uuid now p media url)) uuid = Some a
                  \<and> map_option status (deref (snd (create_run m uuid now p media url)) a)
                      = Some PENDING)))"
proof -
  let ?r = "post_generate m p media url uploads uuid now"
  have le: "length (strip p) \<le> length p" by (rule length_strip_le)
  have iff: "validation_failure (fst ?r)
     = (length (strip p) < 10 \<or> 1000 < length p \<or> media \<notin> {''image'', ''video''})"
  proof (cases "length p < 10 \<or> 1000 < length p")
    case True
    then show ?thesis using le by (auto simp: post_generate_def)
  next
    case False
    show ?thesis
    proof (cases "MediaType_of media")
      case None
      then show ?thesis
        using False MediaType_of_None[of media] by (simp add: post_generate_def)
    next
      case (Some mt)
      then have "media \<in> {''image'', ''video''}"
        using MediaType_of_None[of media] by auto
      then show ?thesis
        using False Some by (simp add: post_generate_def generate_ad_validation)
    qed
  qed
  have unchanged: "validation_failure (fst ?r) \<longrightarrow> snd ?r = m"
    by (auto simp: post_generate_def generate_ad_rejected_unchanged split: option.splits)
  have accepted: "\<not> validation_failure (fst ?r)
        \<longrightarrow> (\<forall>paths. uploads = Inr paths \<longrightarrow>
               (\<exists>response a. ?r = (Inr response, snd (create_run m uuid now p media url))
                  \<and> response_run_id response = uuid
                  \<and> get_run (snd (create_run m uuid now p media url)) uuid = Some a
                  \<and> map_option status (deref (snd (create_run m uuid now p media url)) a)
                      = Some PENDING))"
  proof (intro impI allI)
    fix paths
    assume nv: "\<not> validation_failure (fst ?r)" and up: "uploads = Inr paths"
    from nv iff have ok: "\<not> length (strip p) < 10" "\<not> 1000 < length p"
      "media \<in> {''image'', ''video''}" by auto
    from ok(1) le have len: "\<not> length p < 10" by simp
    from ok(3) obtain mt where mt: "MediaType_of media = Some mt" "MediaType_value mt = media"
      by (auto simp: MediaType_of_def)
    have r: "?r = (Inr \<lparr> response_run_id = uuid, response_status = PENDING,
               response_message = ''Ad generation started. Use the run_id to check status.'',
               estimated_time = (if mt = IMAGE then 120 else 300) \<rparr>,
        snd (create_run m uuid now p media url))"
      using len ok(2) mt generate_ad_accepted[OF ok(1), of m mt url paths uuid now]
      by (simp add: post_generate_def up)
    have g: "get_run (snd (create_run m uuid now p media url)) uuid = Some (length (heap m))"
      by (simp add: create_run_def generate_run_id_def Let_def get_run_def update_conv')
    have s: "map_option status (deref (snd (create_run m uuid now p media url)) (length (heap m)))
        = Some PENDING"
      by (simp add: create_run_def generate_run_id_def Let_def deref_def RunModel_new_def)
    from r g s
    show "\<exists>response a. ?r = (Inr response, snd (create_run m uuid now p media url))
                  \<and> response_run_id response = uuid
                  \<and> get_run (snd (create_run m uuid now p media url)) uuid = Some a
                  \<and> map_option status (deref (snd (create_run m uuid now p media url)) a)
                      = Some PENDING"
      by simp
  qed
  from iff unchanged accepted show ?thesis by (intro conjI)
qed

text \<open>The amended C8 at a rejected and at an accepted request.\<close>

theorem post_generate_validation_witness:
  "validation_failure
     (fst (post_generate RunManager_init ''   too short   '' ''image'' None (Inr (None, None))
             sample_id 1))
   \<and> snd (post_generate RunManager_init ''   too short   '' ''image'' None (Inr (None, None))
             sample_id 1) = RunManager_init
   \<and> \<not> validation_failure
     (fst (post_generate RunManager_init sample_prompt ''image'' None (Inr (None, None))
             sample_id 1))
   \<and> snd (post_generate RunManager_init sample_prompt ''image'' None (Inr (None, None))
             sample_id 1) = one_run"
proof -
  note t1 = post_generate_validation[of RunManager_init "''   too short   ''" "''image''" None
      "Inr (None, None)" sample_id 1]
  note t2 = post_generate_validation[of RunManager_init sample_prompt "''image''" None
      "Inr (None, None)" sample_id 1]
  have s1: "length (strip ''   too short   '') < 10"
    by (simp add: strip_def isspace_def)
  have s2: "\<not> length (strip sample_prompt) < 10" "\<not> 1000 < length sample_prompt"
    by (simp_all add: strip_def isspace_def sample_prompt_def)
  from t1 s1 have a: "validation_failure
     (fst (post_generate RunManager_init ''   too short   '' ''image'' None (Inr (None, None))
             sample_id 1))"
    by simp
  with t1 have b: "snd (post_generate RunManager_init ''   too short   '' ''image'' None
      (Inr (None, None)) sample_id 1) = RunManager_init"
    by simp
  from t2 s2 have c: "\<not> validation_failure
     (fst (post_generate RunManager_init sample_prompt ''image'' None (Inr (None, None))
             sample_id 1))"
    by simp
  with t2 have d: "snd (post_generate RunManager_init sample_prompt ''image'' None
      (Inr (None, None)) sample_id 1) = one_run"
    by (auto simp: one_run_def)
  from a b c d show ?thesis by (intro conjI)
qed

subsection \<open>Stages that were never started\<close>

text \<open>
  Claim C10. For every existing run and every stage name with no stage record on it, both
  \<open>complete_stage\<close> and \<open>fail_stage\<close> return \<open>True\<close>: \<open>complete_stage\<close> changes the
  last-updated timestamp only, so the stage history is as it was; \<open>fail_stage\<close> sets the
  run to failed with the given error message and creates no stage record for the name.
\<close>

theorem unstarted_stage_ok:
  assumes "get_run m rid = Some a" and "deref m a = Some run"
    and "map_of (stages run) name = None"
  shows "\<exists>mc mf. complete_stage m rid name md now1 now2 = (True, mc)
     \<and> deref mc a = Some (run\<lparr>updated_at := now2\<rparr>)
     \<and> map_option stages (deref mc a) = Some (stages run)
     \<and> fail_stage m rid name err md now1 now2 = (True, mf)
     \<and> deref mf a = Some (run\<lparr>status := FAILED, error_message := Some err, updated_at := now2\<rparr>)
     \<and> map_option stages (deref mf a) = Some (stages run)
     \<and> map_option (\<lambda>r. map_of (stages r) name) (deref mf a) = Some None"
  using assms
  by (auto simp: complete_stage_def fail_stage_def get_run_def deref_mutate runs_mutate Let_def
      split: option.splits)

text \<open>C10 on the store with one pending run, which has no stage record.\<close>

theorem unstarted_stage_ok_witness:
  "fst (complete_stage one_run sample_id ''critique'' None 5 6)
   \<and> map_option stages (deref (snd (complete_stage one_run sample_id ''critique'' None 5 6)) 0)
       = Some []
   \<and> fst (fail_stage one_run sample_id ''critique'' ''boom'' None 5 6)
   \<and> map_option status (deref (snd (fail_stage one_run sample_id ''critique'' ''boom'' None 5 6)) 0)
       = Some FAILED
   \<and> map_option stages (deref (snd (fail_stage one_run sample_id ''critique'' ''boom'' None 5 6)) 0)
       = Some []"
proof -
  have "map_of (stages (RunModel_new sample_id sample_prompt ''image'' None PENDING (Finite 0) 1))
          ''critique'' = None"
    by (simp add: RunModel_new_def)
  from unstarted_stage_ok[OF get_run_one_run deref_one_run this, of None 5 6 "''boom''"]
  show ?thesis by (auto simp: RunModel_new_def)
qed

end
